theory Spec2Isabelle
  imports Complex_Main "HOL-Library.Char_ord" "HOL-Library.List_Lexorder"
    "HOL-Library.Product_Lexorder"
begin

chapter \<open>The report store of lighthouse-keeper\<close>

text \<open>
  A model of \<^verbatim>\<open>lighthouse-data.mjs\<close>: the identifier codec, the median, the report store
  on Firestore and cloud storage, the cache, the aggregation of scores and the deletion of
  reports. The stores outside the process are a record \<open>world\<close> that every function takes
  and returns. A function of the source that awaits a store returns a pair of its result
  and the new world; the result is \<open>Inl\<close> of the error when a call is rejected, and the
  world then holds what the function had written before. Which calls are rejected is the
  field \<open>outage\<close> of the world. Values that the source takes from its environment
  (\<^verbatim>\<open>new Date()\<close>, the name of an added document, the answer of the audit API) are
  arguments. The first part holds the definitions, each under the source that it
  translates; the second part holds the properties.
\<close>

section \<open>Identifier codec\<close>

text \<open>
  \<^verbatim>\<open>function slugify(url) { return url.replace(/\//g, '__'); }\<close>

  A global regular-expression replace scans the string from the left and replaces every
  occurrence of the one-character pattern.
\<close>

fun slugify :: "string \<Rightarrow> string" where
  "slugify [] = []"
| "slugify (c # cs) =
     (if c = CHR ''/'' then CHR ''_'' # CHR ''_'' # slugify cs else c # slugify cs)"

text \<open>
  \<^verbatim>\<open>function deslugify(id) { return id.replace(/__/g, '/'); }\<close>

  The matches of a global replace are found from the left and do not overlap: after a
  match the scan resumes behind it, after a mismatch it moves on by one character.
\<close>

fun deslugify :: "string \<Rightarrow> string" where
  "deslugify (a # b # cs) =
     (if a = CHR ''_'' \<and> b = CHR ''_'' then CHR ''/'' # deslugify cs
      else a # deslugify (b # cs))"
| "deslugify cs = cs"

text \<open>The string contains the escape sequence \<^verbatim>\<open>__\<close> somewhere.\<close>

fun has_escape :: "string \<Rightarrow> bool" where
  "has_escape (a # b # cs) = ((a = CHR ''_'' \<and> b = CHR ''_'') \<or> has_escape (b # cs))"
| "has_escape cs = False"

text \<open>
  No underscore of the string is directly followed by an underscore or by a slash.
\<close>

fun underscore_clear :: "string \<Rightarrow> bool" where
  "underscore_clear (a # b # cs) =
     (\<not> (a = CHR ''_'' \<and> (b = CHR ''_'' \<or> b = CHR ''/'')) \<and> underscore_clear (b # cs))"
| "underscore_clear cs = True"

section \<open>Numbers and their string form\<close>

text \<open>
  JavaScript numbers are modelled as exact rationals: the arithmetic of the source
  (\<^verbatim>\<open>score * 100\<close>, the average of two numbers) is exact here, the rounding of binary
  floating point is not modelled. \<open>Number_toString\<close> is the decimal notation that
  \<^verbatim>\<open>String(x)\<close> produces: a sign, the digits of the whole part and, for a number that is
  not whole, a point and the digits of the fraction (at most 20 of them). It is the string
  of JavaScript for whole numbers below \<open>10^21\<close>, which is all that the theorems below
  evaluate, and for the decimal fractions that JavaScript prints without an exponent.
\<close>

definition digit_char :: "nat \<Rightarrow> char" where
  "digit_char d = ''0123456789'' ! d"

fun string_of_nat :: "nat \<Rightarrow> string" where
  "string_of_nat n =
     (if n < 10 then [digit_char n] else string_of_nat (n div 10) @ [digit_char (n mod 10)])"

fun frac_digits :: "nat \<Rightarrow> rat \<Rightarrow> string" where
  "frac_digits 0 f = []"
| "frac_digits (Suc k) f =
     (if f = 0 then []
      else let t = 10 * f; d = nat \<lfloor>t\<rfloor> in digit_char d # frac_digits k (t - of_nat d))"

definition Number_toString :: "rat \<Rightarrow> string" where
  "Number_toString x =
     (let a = \<bar>x\<bar>; whole = nat \<lfloor>a\<rfloor>; f = a - of_nat whole in
      (if x < 0 then [CHR ''-''] else []) @ string_of_nat whole
        @ (if f = 0 then [] else CHR ''.'' # frac_digits 20 f))"

text \<open>The result of an arithmetic expression: a number, or \<^verbatim>\<open>NaN\<close>.\<close>

datatype number = Num rat | NaN

section \<open>Statistics engine\<close>

text \<open>
  \<^verbatim>\<open>
  function median(numbers) {
    let median = 0
    numbers.sort();
    if (numbers.length % 2 === 0) {
      median = (numbers[numbers.length / 2 - 1] + numbers[numbers.length / 2]) / 2;
    } else {
      median = numbers[(numbers.length - 1) / 2];
    }
    return median;
  }
  \<close>
  \<^verbatim>\<open>Array.prototype.sort\<close> without a comparison function orders the elements by their
  string forms, compared code unit by code unit; the sort is stable. On the empty array
  both reads are \<^verbatim>\<open>undefined\<close> and the result is \<^verbatim>\<open>NaN\<close>.
\<close>

definition median :: "rat list \<Rightarrow> number" where
  "median numbers =
     (let sorted = sort_key Number_toString numbers; n = length sorted in
      if n mod 2 = 0 then
        (if n = 0 then NaN else Num ((sorted ! (n div 2 - 1) + sorted ! (n div 2)) / 2))
      else Num (sorted ! ((n - 1) div 2)))"

text \<open>
  The median as the specification words it: the sequence sorted ascending numerically,
  then the central value, or the average of the two central values.
\<close>

definition median_numeric :: "rat list \<Rightarrow> number" where
  "median_numeric numbers =
     (let sorted = sort numbers; n = length sorted in
      if n mod 2 = 0 then
        (if n = 0 then NaN else Num ((sorted ! (n div 2 - 1) + sorted ! (n div 2)) / 2))
      else Num (sorted ! ((n - 1) div 2)))"

section \<open>Dates and timestamps\<close>

text \<open>
  A JavaScript \<^verbatim>\<open>Date\<close> is its number of milliseconds since the epoch. A Firestore
  \<^verbatim>\<open>Timestamp\<close> has seconds and nanoseconds; \<^verbatim>\<open>toDate\<close> rounds the nanoseconds to
  milliseconds. Firestore orders timestamps by seconds, then nanoseconds.
\<close>

type_synonym date = nat

record timestamp =
  seconds :: nat
  nanoseconds :: nat

definition Timestamp_fromDate :: "date \<Rightarrow> timestamp" where
  "Timestamp_fromDate d = \<lparr>seconds = d div 1000, nanoseconds = (d mod 1000) * 1000000\<rparr>"

definition Timestamp_toDate :: "timestamp \<Rightarrow> date" where
  "Timestamp_toDate t = seconds t * 1000 + (nanoseconds t + 500000) div 1000000"

definition ts_key :: "timestamp \<Rightarrow> nat \<times> nat" where
  "ts_key t = (seconds t, nanoseconds t)"

definition pad2 :: "nat \<Rightarrow> string" where
  "pad2 n = (if n < 10 then [CHR ''0''] else []) @ string_of_nat n"

definition pad3 :: "nat \<Rightarrow> string" where
  "pad3 n =
     (if n < 10 then [CHR ''0'', CHR ''0''] else if n < 100 then [CHR ''0''] else [])
       @ string_of_nat n"

definition pad4 :: "nat \<Rightarrow> string" where
  "pad4 n =
     (if n < 10 then [CHR ''0'', CHR ''0'', CHR ''0'']
      else if n < 100 then [CHR ''0'', CHR ''0'']
      else if n < 1000 then [CHR ''0''] else [])
       @ string_of_nat n"

text \<open>
  \<^verbatim>\<open>Date.prototype.toISOString\<close>: \<^verbatim>\<open>YYYY-MM-DDTHH:mm:ss.sssZ\<close> in UTC, for dates from the
  epoch to the year 9999. The calendar date is computed from the day number \<open>z\<close>,
  counted from the first of March of the year 0, in eras of 400 years (146097 days):
  \<open>doe\<close> is the day of the era, and the year, the month and the day follow from it.
\<close>

definition year_of_era :: "nat \<Rightarrow> nat" where
  "year_of_era doe = (doe - doe div 1460 + doe div 36524 - doe div 146096) div 365"

definition day_of_year :: "nat \<Rightarrow> nat" where
  "day_of_year doe =
     doe - (365 * year_of_era doe + year_of_era doe div 4 - year_of_era doe div 100)"

definition month_from_march :: "nat \<Rightarrow> nat" where
  "month_from_march doe = (5 * day_of_year doe + 2) div 153"

definition civil_day :: "nat \<Rightarrow> nat" where
  "civil_day doe = day_of_year doe - (153 * month_from_march doe + 2) div 5 + 1"

definition civil_month :: "nat \<Rightarrow> nat" where
  "civil_month doe =
     (if month_from_march doe < 10 then month_from_march doe + 3
      else month_from_march doe - 9)"

definition civil_year :: "nat \<Rightarrow> nat" where
  "civil_year z =
     year_of_era (z mod 146097) + (z div 146097) * 400
       + (if civil_month (z mod 146097) \<le> 2 then 1 else 0)"

definition date_string :: "nat \<Rightarrow> string" where
  "date_string z =
     pad4 (civil_year z) @ ''-'' @ pad2 (civil_month (z mod 146097)) @ ''-''
       @ pad2 (civil_day (z mod 146097))"

definition time_string :: "nat \<Rightarrow> string" where
  "time_string r =
     pad2 (r div 3600000) @ '':'' @ pad2 (r div 60000 mod 60) @ '':''
       @ pad2 (r div 1000 mod 60) @ ''.'' @ pad3 (r mod 1000)"

definition toISOString :: "date \<Rightarrow> string" where
  "toISOString ms =
     date_string (ms div 86400000 + 719468) @ ''T'' @ time_string (ms mod 86400000) @ ''Z''"

section \<open>Data model\<close>

text \<open>
  A category of a Lighthouse result. The score is \<^verbatim>\<open>null\<close> (\<open>None\<close>) when Lighthouse could
  not compute it; \<open>cat_auditRefs\<close> is \<open>None\<close> once the property has been deleted.
\<close>

record category =
  cat_id :: string
  cat_title :: string
  cat_score :: "rat option"
  cat_auditRefs :: "string list option"

record runtime_error =
  re_code :: string
  re_message :: string

text \<open>
  The \<^verbatim>\<open>auditedOn\<close> property of a Lighthouse result: absent, a \<^verbatim>\<open>Date\<close> object (in
  memory, once \<^verbatim>\<open>saveReport\<close> has set it) or a string (once the result has been through
  JSON).
\<close>

datatype audited = NoDate | DateObj date | DateStr string

text \<open>
  The Lighthouse result \<^verbatim>\<open>json.lhr\<close>: the properties that the code reads or writes, and
  the rest of the payload as an opaque text. \<open>lhr_categories\<close> lists the properties of
  \<^verbatim>\<open>lhr.categories\<close> in their enumeration order.
\<close>

record lhr =
  lhr_i18n :: "string option"
  lhr_categories :: "(string \<times> category) list"
  lhr_runtimeError :: "runtime_error option"
  lhr_auditedOn :: audited
  lhr_rest :: string

type_synonym crux = "(string \<times> string) list"

text \<open>The payload of the audit API: \<^verbatim>\<open>{lhr, crux}\<close>.\<close>

record audit_json =
  aj_lhr :: lhr
  aj_crux :: crux

text \<open>
  A run as the functions return it: \<^verbatim>\<open>{lhrSlim, auditedOn, crux?, lhr?}\<close>, with
  \<^verbatim>\<open>auditedOn\<close> a \<^verbatim>\<open>Date\<close>.
\<close>

record run =
  run_lhrSlim :: "category list"
  run_auditedOn :: date
  run_crux :: "crux option"
  run_lhr :: "lhr option"

text \<open>
  A run document of Firestore, in the collection \<open>doc_coll\<close> under the name \<open>doc_id\<close>;
  Firestore stores a \<^verbatim>\<open>Date\<close> as a \<^verbatim>\<open>Timestamp\<close>.
\<close>

record run_doc =
  doc_coll :: string
  doc_id :: string
  doc_lhrSlim :: "category list"
  doc_auditedOn :: timestamp
  doc_crux :: "crux option"

text \<open>The values that the functions put into the cache.\<close>

datatype cached = Urls "string list" | Medians "(string \<times> number) list" | Runs "run list"

text \<open>The calls to the external stores that can be rejected, and the errors thrown.\<close>

datatype io_call = FirestoreRead | FirestoreWrite | StorageSave | StorageDownload

datatype error =
    StorageError io_call
  | NotFoundError string
  | InvalidArgument string
  | TypeError
  | ApiError string
  | RuntimeError string

text \<open>
  The world outside the process: the run documents of Firestore (all URL collections,
  each document with its collection), the \<^verbatim>\<open>meta\<close> collection (document name and
  \<^verbatim>\<open>lastViewed\<close>), the files of the storage bucket, the cache, the sizes of the write
  batches committed so far, and the calls that are rejected at present.
\<close>

record world =
  docs :: "run_doc list"
  meta :: "(string \<times> date) list"
  bucket :: "string \<rightharpoonup> lhr"
  memcache :: "string \<rightharpoonup> cached"
  commit_log :: "nat list"
  outage :: "io_call \<Rightarrow> bool"

text \<open>
  The configuration object \<^verbatim>\<open>{maxResults, useCache}\<close> that a caller passes; a property
  left out is \<^verbatim>\<open>undefined\<close> (\<open>None\<close>).
\<close>

record config =
  cfg_maxResults :: "nat option"
  cfg_useCache :: "bool option"

section \<open>Firestore, storage and cache\<close>

definition MAX_REPORTS :: nat where
  "MAX_REPORTS = 10"

definition collection :: "string \<Rightarrow> world \<Rightarrow> run_doc list" where
  "collection c w = filter (\<lambda>d. doc_coll d = c) (docs w)"

text \<open>
  \<^verbatim>\<open>orderBy('auditedOn', 'desc')\<close>: newest first; Firestore orders documents of equal
  value by name, in the direction of the query. \<^verbatim>\<open>orderBy('__name__')\<close>: by name,
  ascending. \<^verbatim>\<open>limit(n)\<close> is \<open>take n\<close>.
\<close>

definition orderBy_auditedOn_desc :: "run_doc list \<Rightarrow> run_doc list" where
  "orderBy_auditedOn_desc ds = rev (sort_key (\<lambda>d. (ts_key (doc_auditedOn d), doc_id d)) ds)"

definition orderBy_name :: "run_doc list \<Rightarrow> run_doc list" where
  "orderBy_name ds = sort_key doc_id ds"

text \<open>\<^verbatim>\<open>query.get()\<close>: the documents of the query, or a rejection.\<close>

definition query_get :: "world \<Rightarrow> run_doc list \<Rightarrow> error + run_doc list" where
  "query_get w ds = (if outage w FirestoreRead then Inl (StorageError FirestoreRead) else Inr ds)"

text \<open>
  \<^verbatim>\<open>db.getCollections()\<close>: the collections that hold a document, \<^verbatim>\<open>meta\<close> among them.
\<close>

definition getCollections :: "world \<Rightarrow> string list" where
  "getCollections w = remdups (map doc_coll (docs w)) @ (if meta w = [] then [] else [''meta''])"

definition doc_ref :: "run_doc \<Rightarrow> string \<times> string" where
  "doc_ref d = (doc_coll d, doc_id d)"

text \<open>
  \<^verbatim>\<open>ref.update(data)\<close> sets the fields that \<open>data\<close> has and keeps the others;
  \<^verbatim>\<open>collectionRef.add(data)\<close> creates a document under a new name, which Firestore draws
  at random (here the argument \<open>newId\<close>).
\<close>

definition updated_doc :: "run \<Rightarrow> run_doc \<Rightarrow> run_doc" where
  "updated_doc data d =
     d\<lparr>doc_lhrSlim := run_lhrSlim data,
       doc_auditedOn := Timestamp_fromDate (run_auditedOn data),
       doc_crux := (case run_crux data of None \<Rightarrow> doc_crux d | Some c \<Rightarrow> Some c)\<rparr>"

definition added_doc :: "string \<Rightarrow> string \<Rightarrow> run \<Rightarrow> run_doc" where
  "added_doc c newId data =
     \<lparr>doc_coll = c, doc_id = newId, doc_lhrSlim = run_lhrSlim data,
      doc_auditedOn = Timestamp_fromDate (run_auditedOn data), doc_crux = run_crux data\<rparr>"

definition ref_update :: "string \<times> string \<Rightarrow> run \<Rightarrow> world \<Rightarrow> (error + unit) \<times> world" where
  "ref_update ref data w =
     (if outage w FirestoreWrite then (Inl (StorageError FirestoreWrite), w)
      else (Inr (), w\<lparr>docs := map (\<lambda>d. if doc_ref d = ref then updated_doc data d else d)
                                  (docs w)\<rparr>))"

definition collection_add :: "string \<Rightarrow> string \<Rightarrow> run \<Rightarrow> world \<Rightarrow> (error + unit) \<times> world" where
  "collection_add c newId data w =
     (if outage w FirestoreWrite then (Inl (StorageError FirestoreWrite), w)
      else (Inr (), w\<lparr>docs := docs w @ [added_doc c newId data]\<rparr>))"

text \<open>
  \<^verbatim>\<open>batch.delete(doc.ref)\<close> for every document of a snapshot, then \<^verbatim>\<open>batch.commit()\<close>.
\<close>

definition batch_commit :: "(string \<times> string) list \<Rightarrow> world \<Rightarrow> (error + unit) \<times> world" where
  "batch_commit refs w =
     (if outage w FirestoreWrite then (Inl (StorageError FirestoreWrite), w)
      else (Inr (), w\<lparr>docs := filter (\<lambda>d. doc_ref d \<notin> set refs) (docs w),
                       commit_log := commit_log w @ [length refs]\<rparr>))"

text \<open>
  Modelled from the spec: the cache wrapper \<^verbatim>\<open>memcache.mjs\<close> is not among the sources.
  The specification gives it \<^verbatim>\<open>get(key) -> value|absent\<close>, \<^verbatim>\<open>set(key, value)\<close> and
  \<^verbatim>\<open>delete(key)\<close>, with no eviction beyond explicit deletion.
\<close>

definition memcache_get :: "string \<Rightarrow> world \<Rightarrow> cached option" where
  "memcache_get k w = memcache w k"

definition memcache_set :: "string \<Rightarrow> cached \<Rightarrow> world \<Rightarrow> world" where
  "memcache_set k v w = w\<lparr>memcache := (memcache w)(k \<mapsto> v)\<rparr>"

definition memcache_delete :: "string \<Rightarrow> world \<Rightarrow> world" where
  "memcache_delete k w = w\<lparr>memcache := (memcache w)(k := None)\<rparr>"

text \<open>A value of type \<^verbatim>\<open>boolean=\<close> used as a condition: \<^verbatim>\<open>undefined\<close> is falsy.\<close>

definition truthy :: "bool option \<Rightarrow> bool" where
  "truthy b = (b = Some True)"

text \<open>
  The string form of a stored report: \<^verbatim>\<open>JSON.stringify\<close> writes a \<^verbatim>\<open>Date\<close> as its
  \<^verbatim>\<open>toISOString()\<close>, and \<^verbatim>\<open>JSON.parse\<close> reads it back as a string.
\<close>

definition JSON_roundtrip :: "lhr \<Rightarrow> lhr" where
  "JSON_roundtrip l =
     l\<lparr>lhr_auditedOn := (case lhr_auditedOn l of
                            DateObj d \<Rightarrow> DateStr (toISOString d) | a \<Rightarrow> a)\<rparr>"

definition report_file :: "string \<Rightarrow> string" where
  "report_file name = ''lhrs/'' @ name @ ''.json''"

text \<open>
  \<^verbatim>\<open>
  async function uploadReport(lhr, name) {
    const bucket = storage.bucket(STORAGE_BUCKET);
    const filename = `lhrs/${name}.json`;
    return await bucket.file(filename).save(JSON.stringify(lhr), {...});
  }
  \<close>
\<close>

definition uploadReport :: "lhr \<Rightarrow> string \<Rightarrow> world \<Rightarrow> (error + unit) \<times> world" where
  "uploadReport l name w =
     (if outage w StorageSave then (Inl (StorageError StorageSave), w)
      else (Inr (), w\<lparr>bucket := (bucket w)(report_file name \<mapsto> JSON_roundtrip l)\<rparr>))"

text \<open>
  \<^verbatim>\<open>
  export async function getFullReport(url) {
    const bucket = storage.bucket(STORAGE_BUCKET);
    const filename = `lhrs/${slugify(url)}.json`;
    const data = await bucket.file(filename).download();
    return JSON.parse(data);
  }
  \<close>
\<close>

definition getFullReport :: "string \<Rightarrow> world \<Rightarrow> error + lhr" where
  "getFullReport url w =
     (if outage w StorageDownload then Inl (StorageError StorageDownload)
      else case bucket w (report_file (slugify url)) of
             None \<Rightarrow> Inl (NotFoundError (report_file (slugify url)))
           | Some l \<Rightarrow> Inr l)"

text \<open>
  \<^verbatim>\<open>
  async function updateLastViewed(url) {
    return db.doc(`meta/${slugify(url)}`).set({lastViewed: new Date()});
  }
  \<close>
  The value of \<^verbatim>\<open>new Date()\<close> is the argument \<open>now\<close>.
\<close>

fun set_doc :: "string \<Rightarrow> date \<Rightarrow> (string \<times> date) list \<Rightarrow> (string \<times> date) list" where
  "set_doc k v [] = [(k, v)]"
| "set_doc k v (p # ps) = (if fst p = k then (k, v) # ps else p # set_doc k v ps)"

definition updateLastViewed :: "string \<Rightarrow> date \<Rightarrow> world \<Rightarrow> (error + unit) \<times> world" where
  "updateLastViewed url now w =
     (if outage w FirestoreWrite then (Inl (StorageError FirestoreWrite), w)
      else (Inr (), w\<lparr>meta := set_doc (slugify url) now (meta w)\<rparr>))"

section \<open>Report store\<close>

text \<open>
  \<^verbatim>\<open>
  export async function saveReport(url, json, replace) {
    const lhr = json.lhr;
    delete lhr.i18n;
    const categories = JSON.parse(JSON.stringify(lhr.categories));
    const lhrSlim = Object.values(categories).map(cat => {
      delete cat.auditRefs;
      return cat;
    });
    const today = new Date();
    const data = {lhrSlim, auditedOn: today};
    if (Object.keys(json.crux).length) {
      data.crux = json.crux;
    }
    const collectionRef = db.collection(slugify(url));
    const querySnapshot = await collectionRef
        .orderBy('auditedOn', 'desc').limit(1).get();
    const lastDoc = querySnapshot.docs[0];
    if (!lastDoc) {
      await memcache.delete('getAllSavedUrls');
    }
    lhr.auditedOn = today;
    await uploadReport(lhr, slugify(url));
    if (replace && lastDoc) {
      await lastDoc.ref.update(data);
    } else {
      await collectionRef.add(data);
    }
    await updateLastViewed(url);
    await Promise.all([
      memcache.delete(`getReports_${slugify(url)}`),
      memcache.delete('getMedianScoresOfAllUrls'),
    ]);
    return data;
  }
  \<close>
  The function writes to the object \<^verbatim>\<open>json.lhr\<close> of its caller, so the model returns,
  beside the result and the new world, the caller's \<open>json\<close> as the call leaves it. The
  arguments \<open>today\<close> and \<open>viewed\<close> are the values of the two \<^verbatim>\<open>new Date()\<close>, \<open>newId\<close>
  is the name that Firestore gives to an added document.
\<close>

definition slim :: "lhr \<Rightarrow> category list" where
  "slim l = map (\<lambda>cat. cat\<lparr>cat_auditRefs := None\<rparr>) (map snd (lhr_categories l))"

definition lastDoc_of :: "string \<Rightarrow> world \<Rightarrow> run_doc option" where
  "lastDoc_of c w =
     (case take 1 (orderBy_auditedOn_desc (collection c w)) of [] \<Rightarrow> None | d # _ \<Rightarrow> Some d)"

definition saveReport ::
  "string \<Rightarrow> audit_json \<Rightarrow> bool \<Rightarrow> date \<Rightarrow> date \<Rightarrow> string \<Rightarrow> world
     \<Rightarrow> (error + run) \<times> audit_json \<times> world" where
  "saveReport url json replace today viewed newId w =
     (let lhr0 = (aj_lhr json)\<lparr>lhr_i18n := None\<rparr>;
          json0 = json\<lparr>aj_lhr := lhr0\<rparr>;
          data = \<lparr>run_lhrSlim = slim lhr0, run_auditedOn = today,
                  run_crux = (if aj_crux json \<noteq> [] then Some (aj_crux json) else None),
                  run_lhr = None\<rparr>
      in if outage w FirestoreRead then (Inl (StorageError FirestoreRead), json0, w)
         else
           let lastDoc = lastDoc_of (slugify url) w;
               w1 = (if lastDoc = None then memcache_delete ''getAllSavedUrls'' w else w);
               lhr1 = lhr0\<lparr>lhr_auditedOn := DateObj today\<rparr>;
               json1 = json\<lparr>aj_lhr := lhr1\<rparr>
           in case uploadReport lhr1 (slugify url) w1 of
                (Inl e, w2) \<Rightarrow> (Inl e, json1, w2)
              | (Inr _, w2) \<Rightarrow>
                  (case (case lastDoc of
                           Some d \<Rightarrow> if replace then ref_update (doc_ref d) data w2
                                     else collection_add (slugify url) newId data w2
                         | None \<Rightarrow> collection_add (slugify url) newId data w2) of
                     (Inl e, w3) \<Rightarrow> (Inl e, json1, w3)
                   | (Inr _, w3) \<Rightarrow>
                       (case updateLastViewed url viewed w3 of
                          (Inl e, w4) \<Rightarrow> (Inl e, json1, w4)
                        | (Inr _, w4) \<Rightarrow>
                            (Inr data, json1,
                             memcache_delete ''getMedianScoresOfAllUrls''
                               (memcache_delete (''getReports_'' @ slugify url) w4)))))"

text \<open>
  \<^verbatim>\<open>
  export async function runLighthouseAPI(url, replace=true) {
    const api = new LighthouseAPI(serviceAccountJSON.PSI_API_KEY);
    let json = {};
    try {
      json = await api.audit(url);
      if (json.lhr.runtimeError && json.lhr.runtimeError.code !== 'NO_ERROR') {
        throw new Error(
            `${json.lhr.runtimeError.code} ${json.lhr.runtimeError.message}`);
      }
      json = await saveReport(url, json, replace);
    } catch (err) {
      console.log(err);
      json.errors = `${err}`;
    }
    return json;
  }
  \<close>
  The client \<^verbatim>\<open>lighthouse-api.mjs\<close> is not among the sources: what \<^verbatim>\<open>api.audit(url)\<close>
  gives, a payload or a rejection, is the argument \<open>audit\<close>. The result is the object
  \<^verbatim>\<open>json\<close> at the \<^verbatim>\<open>return\<close>: the stored record, or the object that was in \<^verbatim>\<open>json\<close>
  when the error was caught (\<open>None\<close> for the initial \<^verbatim>\<open>{}\<close>) with its \<^verbatim>\<open>errors\<close>.
\<close>

datatype response = Stored run | Failed "audit_json option" string

definition error_text :: "error \<Rightarrow> string" where
  "error_text e =
     (case e of
        StorageError FirestoreRead \<Rightarrow> ''Error: Firestore read rejected''
      | StorageError FirestoreWrite \<Rightarrow> ''Error: Firestore write rejected''
      | StorageError StorageSave \<Rightarrow> ''Error: storage save rejected''
      | StorageError StorageDownload \<Rightarrow> ''Error: storage download rejected''
      | NotFoundError f \<Rightarrow> ''Error: No such object: '' @ f
      | InvalidArgument a \<Rightarrow> ''Error: Argument '' @ a @ '' is not a valid integer.''
      | TypeError \<Rightarrow> ''TypeError''
      | ApiError m \<Rightarrow> ''Error: '' @ m
      | RuntimeError m \<Rightarrow> ''Error: '' @ m)"

text \<open>The \<^verbatim>\<open>catch\<close> block: it sets \<^verbatim>\<open>json.errors\<close> and lets the function return.\<close>

definition catch_block :: "audit_json option \<Rightarrow> error \<Rightarrow> error + response" where
  "catch_block json err = Inr (Failed json (error_text err))"

definition runtime_failure :: "lhr \<Rightarrow> error option" where
  "runtime_failure l =
     (case lhr_runtimeError l of
        None \<Rightarrow> None
      | Some re \<Rightarrow> if re_code re \<noteq> ''NO_ERROR''
                   then Some (RuntimeError (re_code re @ '' '' @ re_message re)) else None)"

definition runLighthouseAPI ::
  "string \<Rightarrow> bool option \<Rightarrow> error + audit_json \<Rightarrow> date \<Rightarrow> date \<Rightarrow> string \<Rightarrow> world
     \<Rightarrow> (error + response) \<times> world" where
  "runLighthouseAPI url replace audit today viewed newId w =
     (case audit of
        Inl err \<Rightarrow> (catch_block None err, w)
      | Inr json \<Rightarrow>
          (case runtime_failure (aj_lhr json) of
             Some err \<Rightarrow> (catch_block (Some json) err, w)
           | None \<Rightarrow>
               (case saveReport url json (case replace of None \<Rightarrow> True | Some b \<Rightarrow> b)
                       today viewed newId w of
                  (Inl err, json', w') \<Rightarrow> (catch_block (Some json') err, w')
                | (Inr data, json', w') \<Rightarrow> (Inr (Stored data), w'))))"

text \<open>
  \<^verbatim>\<open>
  export async function getAllSavedUrls({useCache}={useCache: true}) {
    const val = await memcache.get('getAllSavedUrls');
    if (val && useCache) {
      return val;
    }
    const collections = await db.getCollections();
    const urls = collections.filter(c => c.id.startsWith('http'))
        .map(c => deslugify(c.id)).sort();
    await memcache.set('getAllSavedUrls', urls);
    return urls;
  }
  \<close>
  The default of a destructured parameter replaces an argument that is missing as a
  whole (\<open>None\<close>); the properties of an argument that is given are taken as they are.
  A cached array or object is truthy.
\<close>

definition getAllSavedUrls :: "config option \<Rightarrow> world \<Rightarrow> (error + cached) \<times> world" where
  "getAllSavedUrls arg w =
     (let use = (case arg of None \<Rightarrow> Some True | Some c \<Rightarrow> cfg_useCache c);
          miss = (if outage w FirestoreRead then (Inl (StorageError FirestoreRead), w)
                  else let urls = sort (map deslugify
                                    (filter (\<lambda>c. take 4 c = ''http'') (getCollections w)))
                       in (Inr (Urls urls), memcache_set ''getAllSavedUrls'' (Urls urls) w))
      in case memcache_get ''getAllSavedUrls'' w of
           Some val \<Rightarrow> if truthy use then (Inr val, w) else miss
         | None \<Rightarrow> miss)"

section \<open>Score aggregation\<close>

text \<open>
  \<^verbatim>\<open>
  async function getAllScores(url, maxResults=MAX_REPORTS) {
    const querySnapshot = await db.collection(`${slugify(url)}`)
        .orderBy('auditedOn', 'desc').limit(maxResults).get();
    const runs = querySnapshot.docs;
    runs.reverse();
    const scores = {};
    runs.map(doc => {
      doc.get('lhrSlim').forEach(cat => {
        if (!scores[cat.id]) {
          scores[cat.id] = [];
        }
        scores[cat.id].push(cat.score * 100);
      });
    });
    return scores;
  }
  \<close>
  The object \<^verbatim>\<open>scores\<close> is the list of its properties in the order of their creation,
  which is the order in which \<^verbatim>\<open>Object.entries\<close> enumerates names that are not array
  indices; category ids are taken to be neither array indices nor names that an object
  inherits (such as \<^verbatim>\<open>constructor\<close>). An array is truthy, so \<^verbatim>\<open>!scores[cat.id]\<close> holds
  exactly when the property is missing. \<^verbatim>\<open>null * 100\<close> is \<open>0\<close>.
\<close>

definition times100 :: "rat option \<Rightarrow> rat" where
  "times100 s = (case s of None \<Rightarrow> 0 | Some x \<Rightarrow> x * 100)"

fun replace_prop :: "string \<Rightarrow> 'a \<Rightarrow> (string \<times> 'a) list \<Rightarrow> (string \<times> 'a) list" where
  "replace_prop k v [] = []"
| "replace_prop k v (p # ps) = (if fst p = k then (k, v) # ps else p # replace_prop k v ps)"

definition push_all :: "string \<Rightarrow> rat list \<Rightarrow> (string \<times> rat list) list \<Rightarrow> (string \<times> rat list) list" where
  "push_all k xs obj =
     (case map_of obj k of
        None \<Rightarrow> obj @ [(k, xs)]
      | Some old \<Rightarrow> replace_prop k (old @ xs) obj)"

definition getAllScores :: "string \<Rightarrow> nat option \<Rightarrow> world \<Rightarrow> error + (string \<times> rat list) list" where
  "getAllScores url maxResults_arg w =
     (let maxResults = (case maxResults_arg of None \<Rightarrow> MAX_REPORTS | Some n \<Rightarrow> n) in
      case query_get w (take maxResults (orderBy_auditedOn_desc (collection (slugify url) w))) of
        Inl e \<Rightarrow> Inl e
      | Inr snapshot \<Rightarrow>
          Inr (foldl (\<lambda>scores doc.
                 foldl (\<lambda>sc cat. push_all (cat_id cat) [times100 (cat_score cat)] sc)
                   scores (doc_lhrSlim doc))
               [] (rev snapshot)))"

text \<open>
  \<^verbatim>\<open>
  export async function getMedianScores(url, maxResults=MAX_REPORTS) {
    const scores = await getAllScores(url, maxResults);
    const medians = {};
    Object.entries(scores).map(([cat, scores]) => {
      medians[cat] = median(scores);
    });
    return medians;
  }
  \<close>
\<close>

definition medians_of :: "(string \<times> rat list) list \<Rightarrow> (string \<times> number) list" where
  "medians_of scores = map (\<lambda>(cat, sc). (cat, median sc)) scores"

definition getMedianScores :: "string \<Rightarrow> nat option \<Rightarrow> world \<Rightarrow> error + (string \<times> number) list" where
  "getMedianScores url maxResults_arg w =
     (case getAllScores url maxResults_arg w of
        Inl e \<Rightarrow> Inl e
      | Inr scores \<Rightarrow> Inr (medians_of scores))"

text \<open>
  \<^verbatim>\<open>
  export async function getMedianScoresOfAllUrls(
      {maxResults, useCache}={maxResults: MAX_REPORTS, useCache: true}) {
    const val = await memcache.get('getMedianScoresOfAllUrls');
    if (val && useCache) {
      return val;
    }
    const combinedScores = {};
    const urls = await getAllSavedUrls();
    for (const url of urls) {
      const urlScores = await getAllScores(url, maxResults);
      Object.entries(urlScores).map(([cat, scores]) => {
        if (!combinedScores[cat]) {
          combinedScores[cat] = [];
        }
        combinedScores[cat].push(...scores);
      });
    }
    const medians = {};
    Object.entries(combinedScores).map(([cat, scores]) => {
      medians[cat] = median(scores);
    });
    if (useCache) {
      await memcache.set('getMedianScoresOfAllUrls', medians);
    }
    return medians;
  }
  \<close>
  A cached value that is not an array of URLs makes the \<^verbatim>\<open>for\<close> loop throw a
  \<^verbatim>\<open>TypeError\<close>.
\<close>

definition destructure :: "config option \<Rightarrow> nat option \<times> bool option" where
  "destructure arg =
     (case arg of
        None \<Rightarrow> (Some MAX_REPORTS, Some True)
      | Some c \<Rightarrow> (cfg_maxResults c, cfg_useCache c))"

fun combineScores ::
  "string list \<Rightarrow> nat option \<Rightarrow> world \<Rightarrow> (string \<times> rat list) list
     \<Rightarrow> error + (string \<times> rat list) list" where
  "combineScores [] maxResults_arg w combinedScores = Inr combinedScores"
| "combineScores (url # urls) maxResults_arg w combinedScores =
     (case getAllScores url maxResults_arg w of
        Inl e \<Rightarrow> Inl e
      | Inr urlScores \<Rightarrow>
          combineScores urls maxResults_arg w
            (foldl (\<lambda>c (cat, scores). push_all cat scores c) combinedScores urlScores))"

definition getMedianScoresOfAllUrls :: "config option \<Rightarrow> world \<Rightarrow> (error + cached) \<times> world" where
  "getMedianScoresOfAllUrls arg w =
     (let (maxResults_arg, use) = destructure arg;
          miss =
            (case getAllSavedUrls None w of
               (Inl e, w1) \<Rightarrow> (Inl e, w1)
             | (Inr (Urls urls), w1) \<Rightarrow>
                 (case combineScores urls maxResults_arg w1 [] of
                    Inl e \<Rightarrow> (Inl e, w1)
                  | Inr combinedScores \<Rightarrow>
                      let medians = medians_of combinedScores
                      in (Inr (Medians medians),
                          if truthy use
                          then memcache_set ''getMedianScoresOfAllUrls'' (Medians medians) w1
                          else w1))
             | (Inr _, w1) \<Rightarrow> (Inl TypeError, w1))
      in case memcache_get ''getMedianScoresOfAllUrls'' w of
           Some val \<Rightarrow> if truthy use then (Inr val, w) else miss
         | None \<Rightarrow> miss)"

section \<open>Reading reports\<close>

text \<open>
  \<^verbatim>\<open>
  export async function getReports(url,
      {maxResults, useCache}={maxResults: MAX_REPORTS, useCache: true}) {
    const cacheKey = `getReports_${slugify(url)}`;
    const val = await memcache.get(cacheKey);
    if (val && useCache) {
      await updateLastViewed(url);
      return val;
    }
    const querySnapshot = await db.collection(slugify(url))
        .orderBy('auditedOn', 'desc').limit(maxResults).get();
    let runs = [];
    if (querySnapshot.empty) {
      return runs;
    } else {
      querySnapshot.forEach(doc => runs.push(doc.data()));
      runs.reverse();
      await updateLastViewed(url);
    }
    const lhr = await getFullReport(url);
    runs = runs.map(r => {
      const ts = new Firestore.Timestamp(
          r.auditedOn._seconds, r.auditedOn._nanoseconds);
      r.auditedOn = ts.toDate();
      if (r.auditedOn.toISOString() === lhr.auditedOn) {
        r.lhr = lhr;
      }
      return r;
    });
    if (useCache) {
      await memcache.set(cacheKey, runs);
    }
    return runs;
  }
  \<close>
  The Firestore client checks the argument of \<^verbatim>\<open>limit\<close> and throws when it is not an
  integer, as \<^verbatim>\<open>undefined\<close> is.
\<close>

definition attach :: "lhr \<Rightarrow> run_doc \<Rightarrow> run" where
  "attach full d =
     \<lparr>run_lhrSlim = doc_lhrSlim d, run_auditedOn = Timestamp_toDate (doc_auditedOn d),
      run_crux = doc_crux d,
      run_lhr = (if DateStr (toISOString (Timestamp_toDate (doc_auditedOn d)))
                      = lhr_auditedOn full
                 then Some full else None)\<rparr>"

definition getReports ::
  "string \<Rightarrow> config option \<Rightarrow> date \<Rightarrow> world \<Rightarrow> (error + cached) \<times> world" where
  "getReports url arg viewed w =
     (let (maxResults_arg, use) = destructure arg;
          cacheKey = ''getReports_'' @ slugify url;
          miss =
            (case maxResults_arg of
               None \<Rightarrow> (Inl (InvalidArgument ''limit''), w)
             | Some maxResults \<Rightarrow>
                 (case query_get w
                         (take maxResults (orderBy_auditedOn_desc (collection (slugify url) w))) of
                    Inl e \<Rightarrow> (Inl e, w)
                  | Inr snapshot \<Rightarrow>
                      if snapshot = [] then (Inr (Runs []), w)
                      else
                        (case updateLastViewed url viewed w of
                           (Inl e, w1) \<Rightarrow> (Inl e, w1)
                         | (Inr _, w1) \<Rightarrow>
                             (case getFullReport url w1 of
                                Inl e \<Rightarrow> (Inl e, w1)
                              | Inr full \<Rightarrow>
                                  let runs = map (attach full) (rev snapshot)
                                  in (Inr (Runs runs),
                                      if truthy use then memcache_set cacheKey (Runs runs) w1
                                      else w1)))))
      in case memcache_get cacheKey w of
           Some val \<Rightarrow>
             if truthy use
             then (case updateLastViewed url viewed w of
                     (Inl e, w1) \<Rightarrow> (Inl e, w1)
                   | (Inr _, w1) \<Rightarrow> (Inr val, w1))
             else miss
         | None \<Rightarrow> miss)"

section \<open>Retention\<close>

text \<open>
  \<^verbatim>\<open>
  function deleteBatch_(query, resolve, reject) {
    query.get().then((snapshot) => {
        if (snapshot.size === 0) {
          return 0;
        }
        const batch = db.batch();
        snapshot.docs.forEach((doc) => {
          batch.delete(doc.ref);
        });
        return batch.commit().then(() => snapshot.size);
      }).then((numDeleted) => {
        if (numDeleted === 0) {
          resolve();
          return;
        }
        process.nextTick(() => {
          deleteBatch_(query, resolve, reject);
        });
      })
      .catch(reject);
  }

  export async function deleteReports(url) {
    const batchSize = 20;
    const collectionRef = db.collection(slugify(url));
    const query = collectionRef.orderBy('__name__').limit(batchSize);
    return new Promise((resolve, reject) => {
      deleteBatch_(query, resolve, reject);
    });
  }
  \<close>
  \<open>deleteBatch\<close> is \<^verbatim>\<open>deleteBatch_\<close>; the query is its collection and its limit. The recursion ends because a snapshot that is
  not empty holds a document of the collection, which the batch deletes.
\<close>

function deleteBatch :: "string \<Rightarrow> nat \<Rightarrow> world \<Rightarrow> (error + unit) \<times> world" where
  "deleteBatch c batchSize w =
     (case query_get w (take batchSize (orderBy_name (collection c w))) of
        Inl e \<Rightarrow> (Inl e, w)
      | Inr snapshot \<Rightarrow>
          if length snapshot = 0 then (Inr (), w)
          else (case batch_commit (map doc_ref snapshot) w of
                  (Inl e, w') \<Rightarrow> (Inl e, w')
                | (Inr _, w') \<Rightarrow> deleteBatch c batchSize w'))"
  by pat_completeness auto
termination
proof (relation "measure (\<lambda>(c, batchSize, w). length (collection c w))", goal_cases)
  case 1
  show ?case by simp
next
  case (2 c batchSize w snapshot x y u)
  from 2(1) have snap: "snapshot = take batchSize (orderBy_name (collection c w))"
    by (simp add: query_get_def split: if_splits)
  from 2(3) 2(4) have y: "y = w\<lparr>docs := filter (\<lambda>d. doc_ref d \<notin> set (map doc_ref snapshot)) (docs w),
      commit_log := commit_log w @ [length (map doc_ref snapshot)]\<rparr>"
    by (simp add: batch_commit_def split: if_splits)
  from 2(2) obtain d where d: "d \<in> set snapshot" by (cases snapshot) auto
  then have "d \<in> set (orderBy_name (collection c w))"
    using snap by (auto dest: in_set_takeD)
  then have dc: "d \<in> set (collection c w)" by (simp add: orderBy_name_def)
  have "collection c y = filter (\<lambda>d. doc_ref d \<notin> set (map doc_ref snapshot)) (collection c w)"
    by (simp add: y collection_def conj_commute)
  moreover have "length (filter (\<lambda>d. doc_ref d \<notin> set (map doc_ref snapshot)) (collection c w))
      < length (collection c w)"
    by (rule length_filter_less [OF dc]) (use d in auto)
  ultimately show ?case by simp
qed

declare deleteBatch.simps [simp del]

definition deleteReports :: "string \<Rightarrow> world \<Rightarrow> (error + unit) \<times> world" where
  "deleteReports url w = deleteBatch (slugify url) 20 w"

section \<open>Example data\<close>

definition perf :: "rat \<Rightarrow> category" where
  "perf s = \<lparr>cat_id = ''performance'', cat_title = ''Performance'', cat_score = Some s,
             cat_auditRefs = None\<rparr>"

definition empty_world :: world where
  "empty_world =
     \<lparr>docs = [], meta = [], bucket = Map.empty, memcache = Map.empty, commit_log = [],
      outage = (\<lambda>_. False)\<rparr>"

text \<open>
  Two URLs: \<^verbatim>\<open>https://a.example\<close> with one run of performance score 0.8, and
  \<^verbatim>\<open>https://b.example\<close> with two runs of scores 0.9 and 1.
\<close>

definition pooled_world :: world where
  "pooled_world =
     empty_world\<lparr>docs :=
        [\<lparr>doc_coll = ''https:____a.example'', doc_id = ''a1'', doc_lhrSlim = [perf (8/10)],
          doc_auditedOn = Timestamp_fromDate 1000, doc_crux = None\<rparr>,
         \<lparr>doc_coll = ''https:____b.example'', doc_id = ''b1'', doc_lhrSlim = [perf (9/10)],
          doc_auditedOn = Timestamp_fromDate 2000, doc_crux = None\<rparr>,
         \<lparr>doc_coll = ''https:____b.example'', doc_id = ''b2'', doc_lhrSlim = [perf 1],
          doc_auditedOn = Timestamp_fromDate 3000, doc_crux = None\<rparr>]\<rparr>"

text \<open>A payload of the audit API, as \<^verbatim>\<open>runLighthouseAPI\<close> passes it to \<^verbatim>\<open>saveReport\<close>.\<close>

definition audit_example :: audit_json where
  "audit_example =
     \<lparr>aj_lhr = \<lparr>lhr_i18n = Some ''{rendererFormattedStrings}'',
                lhr_categories = [(''performance'', (perf (8/10))\<lparr>cat_auditRefs := Some [''first-contentful-paint'']\<rparr>)],
                lhr_runtimeError = None, lhr_auditedOn = NoDate, lhr_rest = ''{audits}''\<rparr>,
      aj_crux = []\<rparr>"

text \<open>
  The world of the two URLs with, for \<^verbatim>\<open>https://a.example\<close>, its full report in the
  bucket and an older list of runs in the cache, and with the list of all URLs and the
  medians of all URLs in the cache.
\<close>

definition stored_report :: lhr where
  "stored_report = (aj_lhr audit_example)\<lparr>lhr_i18n := None,
                     lhr_auditedOn := DateStr ''1970-01-01T00:00:01.000Z''\<rparr>"

definition stale_runs :: cached where
  "stale_runs = Runs [\<lparr>run_lhrSlim = [perf (1/2)], run_auditedOn = 500, run_crux = None,
                       run_lhr = None\<rparr>]"

definition all_urls :: cached where
  "all_urls = Urls [''https://a.example'', ''https://b.example'']"

definition all_medians :: cached where
  "all_medians = Medians [(''performance'', Num 80)]"

definition cached_world :: world where
  "cached_world =
     pooled_world\<lparr>bucket := [''lhrs/https:____a.example.json'' \<mapsto> stored_report],
                   memcache := [''getReports_https:____a.example'' \<mapsto> stale_runs,
                                ''getAllSavedUrls'' \<mapsto> all_urls,
                                ''getMedianScoresOfAllUrls'' \<mapsto> all_medians]\<rparr>"

text \<open>The runs of a result that carry the full report.\<close>

definition carries_report :: "error + cached \<Rightarrow> bool list" where
  "carries_report res =
     (case res of Inr (Runs rs) \<Rightarrow> map (\<lambda>r. run_lhr r \<noteq> None) rs | _ \<Rightarrow> [])"

text \<open>
  A payload without \<^verbatim>\<open>i18n\<close> whose \<^verbatim>\<open>auditedOn\<close> is already the date 5000, and a payload
  whose run ended with a runtime error.
\<close>

definition dated_example :: audit_json where
  "dated_example =
     audit_example\<lparr>aj_lhr := (aj_lhr audit_example)\<lparr>lhr_i18n := None,
                                                      lhr_auditedOn := DateObj 5000\<rparr>\<rparr>"

definition errored_example :: audit_json where
  "errored_example =
     audit_example\<lparr>aj_lhr := (aj_lhr audit_example)\<lparr>lhr_runtimeError :=
        Some \<lparr>re_code = ''ERRORED_DOCUMENT_REQUEST'', re_message = ''Status code: 404''\<rparr>\<rparr>\<rparr>"

text \<open>
  The sizes of the batches that delete \<open>n\<close> documents \<open>b\<close> at a time: full batches, then
  the rest.
\<close>

definition batch_sizes :: "nat \<Rightarrow> nat \<Rightarrow> nat list" where
  "batch_sizes b n = replicate (n div b) b @ (if n mod b = 0 then [] else [n mod b])"

text \<open>A collection of \<open>n\<close> run documents with the names \<^verbatim>\<open>r\<close>, \<^verbatim>\<open>rr\<close>, \<^verbatim>\<open>rrr\<close>, ...\<close>

definition many_docs :: "string \<Rightarrow> nat \<Rightarrow> run_doc list" where
  "many_docs c n =
     map (\<lambda>i. \<lparr>doc_coll = c, doc_id = replicate (Suc i) CHR ''r'', doc_lhrSlim = [perf 1],
               doc_auditedOn = Timestamp_fromDate (1000 * i), doc_crux = None\<rparr>) [0..<n]"

definition big_world :: world where
  "big_world = empty_world\<lparr>docs := many_docs ''https:____a.example'' 45\<rparr>"

text \<open>
  The world after two calls of \<open>saveReport\<close> for \<^verbatim>\<open>https://a.example\<close> with
  \<open>replace = false\<close>, both in the millisecond 1541116800000
  (\<^verbatim>\<open>2018-11-02T00:00:00.000Z\<close>), starting from the empty world.
\<close>

definition saved_once :: world where
  "saved_once =
     snd (snd (saveReport ''https://a.example'' audit_example False 1541116800000
                 1541116800000 ''n1'' empty_world))"

definition saved_twice :: world where
  "saved_twice =
     snd (snd (saveReport ''https://a.example'' audit_example False 1541116800000
                 1541116800000 ''n2'' saved_once))"

section \<open>Properties of the codec\<close>

lemma underscore_clear_tl: "underscore_clear (c # cs) \<Longrightarrow> underscore_clear cs"
  by (cases cs) auto

lemma deslugify_other:
  "c \<noteq> CHR ''_'' \<Longrightarrow> deslugify (c # cs) = c # deslugify cs"
  by (cases cs) auto

lemma deslugify_single_underscore:
  "cs = [] \<or> hd cs \<noteq> CHR ''_'' \<Longrightarrow> deslugify (CHR ''_'' # cs) = CHR ''_'' # deslugify cs"
  by (cases cs) auto

lemma slugify_hd:
  "cs \<noteq> [] \<Longrightarrow> hd cs \<noteq> CHR ''_'' \<Longrightarrow> hd cs \<noteq> CHR ''/'' \<Longrightarrow>
     slugify cs \<noteq> [] \<and> hd (slugify cs) \<noteq> CHR ''_''"
  by (cases cs) auto

lemma deslugify_slugify:
  "underscore_clear u \<Longrightarrow> deslugify (slugify u) = u"
proof (induction u)
  case Nil
  show ?case by simp
next
  case (Cons c cs)
  have ih: "deslugify (slugify cs) = cs"
    using Cons underscore_clear_tl by blast
  show ?case
  proof (cases "c = CHR ''/''")
    case True
    then show ?thesis using ih by simp
  next
    case False
    note not_slash = this
    show ?thesis
    proof (cases "c = CHR ''_''")
      case False
      then show ?thesis using not_slash ih by (simp add: deslugify_other)
    next
      case True
      have "cs = [] \<or> (hd cs \<noteq> CHR ''_'' \<and> hd cs \<noteq> CHR ''/'')"
        using Cons.prems True by (cases cs) auto
      then have "slugify cs = [] \<or> hd (slugify cs) \<noteq> CHR ''_''"
        using slugify_hd by (cases cs) auto
      then have "deslugify (CHR ''_'' # slugify cs) = CHR ''_'' # deslugify (slugify cs)"
        by (rule deslugify_single_underscore)
      then show ?thesis using True ih by simp
    qed
  qed
qed

text \<open>
  C4, as stated: for every URL without the escape sequence \<^verbatim>\<open>__\<close>, decoding the encoded
  URL gives the URL back, and no two such URLs share an identifier. The URL
  \<^verbatim>\<open>https://a.b/x_/y\<close> has no \<^verbatim>\<open>__\<close>, yet its identifier decodes to
  \<^verbatim>\<open>https://a.b/x/_y\<close>, a different URL without \<^verbatim>\<open>__\<close> that has the same identifier.
\<close>

theorem slugify_roundtrip_counterexample:
  "\<not> has_escape ''https://a.b/x_/y'' \<and> \<not> has_escape ''https://a.b/x/_y''
     \<and> deslugify (slugify ''https://a.b/x_/y'') = ''https://a.b/x/_y''
     \<and> deslugify (slugify ''https://a.b/x_/y'') \<noteq> ''https://a.b/x_/y''
     \<and> ''https://a.b/x_/y'' \<noteq> ''https://a.b/x/_y''
     \<and> slugify ''https://a.b/x_/y'' = slugify ''https://a.b/x/_y''"
  by simp

text \<open>
  C4, amended: for every URL in which no underscore is directly followed by an underscore
  or a slash, decoding the encoded URL gives the URL back, and two such URLs with the same
  identifier are equal.
\<close>

theorem slugify_roundtrip:
  "(underscore_clear u \<longrightarrow> deslugify (slugify u) = u)
     \<and> (underscore_clear u \<and> underscore_clear v \<and> slugify u = slugify v \<longrightarrow> u = v)"
proof (intro conjI impI)
  assume "underscore_clear u"
  then show "deslugify (slugify u) = u" by (rule deslugify_slugify)
next
  assume h: "underscore_clear u \<and> underscore_clear v \<and> slugify u = slugify v"
  then have cu: "underscore_clear u" and cv: "underscore_clear v"
    and eq: "slugify u = slugify v" by blast+
  have "u = deslugify (slugify u)" using cu by (simp add: deslugify_slugify)
  also have "\<dots> = deslugify (slugify v)" by (simp only: eq)
  also have "\<dots> = v" using cv by (simp add: deslugify_slugify)
  finally show "u = v" .
qed

theorem slugify_roundtrip_witness:
  "underscore_clear ''https://a.b/x_y'' \<and> underscore_clear ''https://a.b/x_y''
     \<and> slugify ''https://a.b/x_y'' = ''https:____a.b__x_y''
     \<and> deslugify ''https:____a.b__x_y'' = ''https://a.b/x_y''"
  using slugify_roundtrip [of "''https://a.b/x_y''" "''https://a.b/x_y''"] by simp

section \<open>Evaluation\<close>

lemmas store_defs = collection_def orderBy_auditedOn_desc_def orderBy_name_def query_get_def
  getCollections_def doc_ref_def updated_doc_def added_doc_def ref_update_def
  collection_add_def batch_commit_def
  memcache_get_def memcache_set_def memcache_delete_def truthy_def JSON_roundtrip_def
  report_file_def uploadReport_def getFullReport_def updateLastViewed_def ts_key_def
  Timestamp_fromDate_def Timestamp_toDate_def MAX_REPORTS_def lastDoc_of_def

lemmas number_defs = Number_toString_def digit_char_def

lemmas date_defs = toISOString_def date_string_def time_string_def civil_year_def
  civil_month_def civil_day_def month_from_march_def day_of_year_def year_of_era_def
  pad2_def pad3_def pad4_def digit_char_def

lemmas example_defs = perf_def empty_world_def pooled_world_def audit_example_def
  stored_report_def stale_runs_def all_urls_def all_medians_def cached_world_def dated_example_def errored_example_def

lemma iso_1000: "toISOString 1000 = ''1970-01-01T00:00:01.000Z''"
  by (simp add: date_defs)

section \<open>The median\<close>

text \<open>The three examples of the specification hold: there the two orders agree.\<close>

lemma median_examples:
  "median [3, 5, 4, 4, 1, 1, 2, 3] = Num 3 \<and> median [1, 2, 3, 4] = Num (5 / 2)
     \<and> median [5] = Num 5"
  by (simp add: median_def number_defs)

text \<open>
  C2: for every non-empty sequence, \<^verbatim>\<open>median\<close> sorts ascending numerically and returns
  the central value, or the average of the two central values. The code sorts by the
  string forms: of the scores 100, 20 and 30 it returns 20, the numeric median is 30.
\<close>

theorem median_sorts_by_string_form:
  "median [100, 20, 30] = Num 20 \<and> median_numeric [100, 20, 30] = Num 30"
  by (simp add: median_def median_numeric_def number_defs)

section \<open>The median of all URLs\<close>

text \<open>
  C1: the all-URLs aggregation returns, for each category, the median of the pooled scores
  of every URL; with the performance scores \<open>[80]\<close> and \<open>[90, 100]\<close> it returns 90. The
  code pools the scores, and then \<^verbatim>\<open>median\<close> orders 80, 90, 100 as the strings
  \<^verbatim>\<open>"100" < "80" < "90"\<close>: the result is 80.
\<close>

theorem pooled_median_is_80:
  "getAllScores ''https://a.example'' None pooled_world = Inr [(''performance'', [80])]
     \<and> getAllScores ''https://b.example'' None pooled_world = Inr [(''performance'', [90, 100])]
     \<and> fst (getMedianScoresOfAllUrls None pooled_world)
         = Inr (Medians [(''performance'', Num 80)])
     \<and> median ([80] @ [90, 100]) = Num 80
     \<and> median_numeric ([80] @ [90, 100]) = Num 90"
  by (simp add: getMedianScoresOfAllUrls_def destructure_def getAllSavedUrls_def
      getAllScores_def example_defs store_defs push_all_def times100_def medians_of_def
      median_def median_numeric_def number_defs Let_def)

section \<open>Partial configuration objects\<close>

text \<open>
  C3: a partial configuration object has its missing fields filled with the defaults
  \<open>maxResults = 10\<close> and \<open>useCache = true\<close>. The defaults of the code stand for an argument
  that is missing as a whole. With \<^verbatim>\<open>{maxResults: 5}\<close>, \<^verbatim>\<open>useCache\<close> is \<^verbatim>\<open>undefined\<close>:
  \<^verbatim>\<open>getReports\<close> does not return the cached list, which it returns without an argument,
  and does not write its result to the cache. With \<^verbatim>\<open>{useCache: true}\<close>,
  \<^verbatim>\<open>maxResults\<close> is \<^verbatim>\<open>undefined\<close>.
\<close>

theorem partial_config_gets_no_defaults:
  "destructure (Some \<lparr>cfg_maxResults = Some 5, cfg_useCache = None\<rparr>) = (Some 5, None)
     \<and> destructure (Some \<lparr>cfg_maxResults = None, cfg_useCache = Some True\<rparr>) = (None, Some True)
     \<and> destructure None = (Some 10, Some True)
     \<and> fst (getReports ''https://a.example'' None 5000 cached_world) = Inr stale_runs
     \<and> fst (getReports ''https://a.example''
              (Some \<lparr>cfg_maxResults = Some 5, cfg_useCache = None\<rparr>) 5000 cached_world)
         = Inr (Runs [\<lparr>run_lhrSlim = [perf (8/10)], run_auditedOn = 1000, run_crux = None,
                       run_lhr = Some stored_report\<rparr>])
     \<and> memcache (snd (getReports ''https://a.example''
              (Some \<lparr>cfg_maxResults = Some 5, cfg_useCache = None\<rparr>) 5000 cached_world))
         = memcache cached_world"
  by (simp add: getReports_def destructure_def attach_def iso_1000 example_defs store_defs)

section \<open>Saving a report\<close>


lemma sort_key_Nil_iff: "sort_key f xs = [] \<longleftrightarrow> xs = []"
  by (metis length_sort length_0_conv)

lemma lastDoc_of_None_iff: "lastDoc_of c w = None \<longleftrightarrow> collection c w = []"
proof -
  have "take 1 xs = [] \<longleftrightarrow> xs = []" for xs :: "run_doc list"
    by (cases xs) auto
  then show ?thesis
    by (auto simp: lastDoc_of_def orderBy_auditedOn_desc_def sort_key_Nil_iff
        split: list.splits)
qed


text \<open>A call of \<open>saveReport\<close> fails when a store that it uses rejects its call.\<close>

lemma saveReport_fails:
  assumes "outage w FirestoreRead \<or> outage w StorageSave \<or> outage w FirestoreWrite"
  shows "\<exists>e. fst (saveReport url json replace today viewed newId w) = Inl e"
proof (cases "outage w FirestoreRead")
  case True
  then show ?thesis by (simp add: saveReport_def Let_def)
next
  case False
  note read = this
  show ?thesis
  proof (cases "outage w StorageSave")
    case True
    then show ?thesis using read
      by (simp add: saveReport_def Let_def uploadReport_def memcache_delete_def)
  next
    case False
    then have "outage w FirestoreWrite" using assms read by blast
    then show ?thesis using read False
      by (simp add: saveReport_def Let_def uploadReport_def memcache_delete_def
          ref_update_def collection_add_def split: option.splits)
  qed
qed

text \<open>What a call of \<open>saveReport\<close> does when no store rejects a call.\<close>

lemma saveReport_ok:
  fixes url json replace today viewed newId w
  assumes "\<not> outage w FirestoreRead" "\<not> outage w StorageSave" "\<not> outage w FirestoreWrite"
  defines "r \<equiv> saveReport url json replace today viewed newId w"
  defines "data \<equiv> \<lparr>run_lhrSlim = slim ((aj_lhr json)\<lparr>lhr_i18n := None\<rparr>),
                     run_auditedOn = today,
                     run_crux = (if aj_crux json \<noteq> [] then Some (aj_crux json) else None),
                     run_lhr = None\<rparr>"
  shows "fst r = Inr data"
    and "fst (snd r) =
           json\<lparr>aj_lhr := (aj_lhr json)\<lparr>lhr_i18n := None, lhr_auditedOn := DateObj today\<rparr>\<rparr>"
    and "docs (snd (snd r)) =
           (case lastDoc_of (slugify url) w of
              Some l \<Rightarrow> if replace
                        then map (\<lambda>d. if doc_ref d = doc_ref l then updated_doc data d else d) (docs w)
                        else docs w @ [added_doc (slugify url) newId data]
            | None \<Rightarrow> docs w @ [added_doc (slugify url) newId data])"
    and "memcache (snd (snd r)) =
           (\<lambda>k. if k = ''getMedianScoresOfAllUrls'' \<or> k = ''getReports_'' @ slugify url then None
                else if k = ''getAllSavedUrls'' \<and> lastDoc_of (slugify url) w = None then None
                else memcache w k)"
    and "bucket (snd (snd r)) =
           (bucket w)(report_file (slugify url) \<mapsto>
              JSON_roundtrip ((aj_lhr json)\<lparr>lhr_i18n := None, lhr_auditedOn := DateObj today\<rparr>))"
    and "meta (snd (snd r)) = set_doc (slugify url) viewed (meta w)"
    and "commit_log (snd (snd r)) = commit_log w"
    and "outage (snd (snd r)) = outage w"
  using assms(1-3) unfolding r_def data_def
  by (simp_all add: saveReport_def Let_def uploadReport_def ref_update_def collection_add_def
      updateLastViewed_def memcache_delete_def fun_eq_iff split: option.splits)

lemma saveReport_completes_no_outage:
  assumes "saveReport url json replace today viewed newId w = (Inr data, json', w')"
  shows "\<not> outage w FirestoreRead" and "\<not> outage w StorageSave"
    and "\<not> outage w FirestoreWrite"
proof -
  have "\<not> (outage w FirestoreRead \<or> outage w StorageSave \<or> outage w FirestoreWrite)"
  proof
    assume "outage w FirestoreRead \<or> outage w StorageSave \<or> outage w FirestoreWrite"
    then have "\<exists>e. fst (saveReport url json replace today viewed newId w) = Inl e"
      by (rule saveReport_fails)
    then show False using assms by simp
  qed
  then show "\<not> outage w FirestoreRead" and "\<not> outage w StorageSave"
    and "\<not> outage w FirestoreWrite" by blast+
qed



text \<open>
  C6: \<open>saveReport\<close> deletes the cache entry of the list of all URLs if and only if the URL
  had no run record before; for a URL with run records it leaves that entry as it is. The
  entry of the URL's report list and the entry of the median of all URLs are deleted by
  every save. (For every call that completes; no other cache entry changes.)
\<close>

theorem saveReport_cache_invalidation:
  assumes "saveReport url json replace today viewed newId w = (Inr data, json', w')"
  shows "memcache w' (''getReports_'' @ slugify url) = None
       \<and> memcache w' ''getMedianScoresOfAllUrls'' = None
       \<and> memcache w' ''getAllSavedUrls''
           = (if collection (slugify url) w = [] then None else memcache w ''getAllSavedUrls'')
       \<and> (\<forall>k. k \<noteq> ''getReports_'' @ slugify url \<and> k \<noteq> ''getMedianScoresOfAllUrls''
               \<and> k \<noteq> ''getAllSavedUrls'' \<longrightarrow> memcache w' k = memcache w k)"
proof -
  note ok = saveReport_completes_no_outage [OF assms]
  have w': "snd (snd (saveReport url json replace today viewed newId w)) = w'"
    using assms by simp
  have m: "memcache w' =
           (\<lambda>k. if k = ''getMedianScoresOfAllUrls'' \<or> k = ''getReports_'' @ slugify url then None
                else if k = ''getAllSavedUrls'' \<and> lastDoc_of (slugify url) w = None then None
                else memcache w k)"
    using saveReport_ok(4) [OF ok, of url json replace today viewed newId]
    by (simp only: w')
  show ?thesis unfolding m by (simp add: lastDoc_of_None_iff)
qed




lemma cached_world_no_outage:
  "\<not> outage cached_world FirestoreRead" "\<not> outage cached_world StorageSave"
  "\<not> outage cached_world FirestoreWrite"
  by (simp_all add: cached_world_def pooled_world_def empty_world_def)

lemma empty_world_no_outage:
  "\<not> outage empty_world FirestoreRead" "\<not> outage empty_world StorageSave"
  "\<not> outage empty_world FirestoreWrite"
  by (simp_all add: empty_world_def)

lemma saveReport_triple:
  assumes "\<not> outage w FirestoreRead" "\<not> outage w StorageSave" "\<not> outage w FirestoreWrite"
  shows "\<exists>data. saveReport url json replace today viewed newId w
           = (Inr data, fst (snd (saveReport url json replace today viewed newId w)),
              snd (snd (saveReport url json replace today viewed newId w)))"
  using saveReport_ok(1) [OF assms, of url json replace today viewed newId]
  by (metis prod.collapse)


theorem saveReport_cache_invalidation_witness:
  "memcache (snd (snd (saveReport ''https://a.example'' audit_example True 5000 5001 ''n1''
                         cached_world))) ''getReports_https:____a.example'' = None
   \<and> memcache (snd (snd (saveReport ''https://a.example'' audit_example True 5000 5001 ''n1''
                         cached_world))) ''getMedianScoresOfAllUrls'' = None
   \<and> memcache (snd (snd (saveReport ''https://a.example'' audit_example True 5000 5001 ''n1''
                         cached_world))) ''getAllSavedUrls'' = Some all_urls
   \<and> memcache (snd (snd (saveReport ''https://c.example'' audit_example True 5000 5001 ''n1''
                         cached_world))) ''getAllSavedUrls'' = None"
proof -
  have c: "collection ''https:____a.example'' cached_world \<noteq> []"
    "collection ''https:____c.example'' cached_world = []"
    and u: "slugify ''https://a.example'' = ''https:____a.example''"
    "slugify ''https://c.example'' = ''https:____c.example''"
    and m: "memcache cached_world ''getAllSavedUrls'' = Some all_urls"
    by (simp_all add: collection_def cached_world_def pooled_world_def empty_world_def)
  obtain d1 where h1: "saveReport ''https://a.example'' audit_example True 5000 5001 ''n1''
      cached_world = (Inr d1,
        fst (snd (saveReport ''https://a.example'' audit_example True 5000 5001 ''n1'' cached_world)),
        snd (snd (saveReport ''https://a.example'' audit_example True 5000 5001 ''n1'' cached_world)))"
    using saveReport_triple [OF cached_world_no_outage] by blast
  obtain d2 where h2: "saveReport ''https://c.example'' audit_example True 5000 5001 ''n1''
      cached_world = (Inr d2,
        fst (snd (saveReport ''https://c.example'' audit_example True 5000 5001 ''n1'' cached_world)),
        snd (snd (saveReport ''https://c.example'' audit_example True 5000 5001 ''n1'' cached_world)))"
    using saveReport_triple [OF cached_world_no_outage] by blast
  show ?thesis
    using saveReport_cache_invalidation [OF h1] saveReport_cache_invalidation [OF h2] c m
    by (simp add: u)
qed


section \<open>The audit\<close>

text \<open>
  C8: \<open>runLighthouseAPI\<close> never throws. When the audit API rejects the call, when the
  payload reports a runtime error with a code other than \<^verbatim>\<open>NO_ERROR\<close>, or when
  \<open>saveReport\<close> fails, it returns the object that \<^verbatim>\<open>json\<close> held with an \<^verbatim>\<open>errors\<close> field
  that is the text of the error; a runtime error is not stored.
\<close>

theorem runLighthouseAPI_returns_errors:
  "(\<exists>res. fst (runLighthouseAPI url replace audit today viewed newId w) = Inr res)
   \<and> (\<forall>e. audit = Inl e \<longrightarrow>
         runLighthouseAPI url replace audit today viewed newId w
           = (Inr (Failed None (error_text e)), w))
   \<and> (\<forall>j re. audit = Inr j \<and> lhr_runtimeError (aj_lhr j) = Some re \<and> re_code re \<noteq> ''NO_ERROR''
         \<longrightarrow> runLighthouseAPI url replace audit today viewed newId w
               = (Inr (Failed (Some j) (''Error: '' @ re_code re @ '' '' @ re_message re)), w))
   \<and> (\<forall>j e j' w'. audit = Inr j \<and> runtime_failure (aj_lhr j) = None
         \<and> saveReport url j (case replace of None \<Rightarrow> True | Some b \<Rightarrow> b) today viewed newId w
             = (Inl e, j', w')
         \<longrightarrow> runLighthouseAPI url replace audit today viewed newId w
               = (Inr (Failed (Some j') (error_text e)), w'))
   \<and> (\<forall>data. fst (runLighthouseAPI url replace audit today viewed newId w) = Inr (Stored data)
         \<longrightarrow> (\<exists>j. audit = Inr j \<and> runtime_failure (aj_lhr j) = None
                \<and> fst (saveReport url j (case replace of None \<Rightarrow> True | Some b \<Rightarrow> b)
                          today viewed newId w) = Inr data))"
  by (auto simp: runLighthouseAPI_def catch_block_def runtime_failure_def error_text_def
      split: sum.splits option.splits prod.splits)

theorem runLighthouseAPI_returns_errors_witness:
  "runLighthouseAPI ''https://a.example'' None (Inr errored_example) 5000 5001 ''n1'' empty_world
     = (Inr (Failed (Some errored_example) ''Error: ERRORED_DOCUMENT_REQUEST Status code: 404''),
        empty_world)
   \<and> runLighthouseAPI ''https://a.example'' None (Inl (ApiError ''quota'')) 5000 5001 ''n1''
        empty_world
     = (Inr (Failed None ''Error: quota''), empty_world)"
proof -
  have e: "lhr_runtimeError (aj_lhr errored_example)
      = Some \<lparr>re_code = ''ERRORED_DOCUMENT_REQUEST'', re_message = ''Status code: 404''\<rparr>"
    by (simp add: errored_example_def)
  have t: "error_text (ApiError ''quota'') = ''Error: quota''"
    by (simp add: error_text_def)
  show ?thesis
    using runLighthouseAPI_returns_errors [of "''https://a.example''" None "Inr errored_example"
        5000 5001 "''n1''" empty_world]
      runLighthouseAPI_returns_errors [of "''https://a.example''" None "Inl (ApiError ''quota'')"
        5000 5001 "''n1''" empty_world] e t
    by simp
qed

section \<open>Deleting the reports of a URL\<close>

lemma filter_taken_refs:
  assumes "distinct (map g xs)"
  shows "filter (\<lambda>d. g d \<notin> set (map g (take b xs))) xs = drop b xs"
proof -
  have d: "distinct (map g (take b xs) @ map g (drop b xs))"
    using assms by (simp flip: map_append)
  let ?P = "\<lambda>d. g d \<notin> set (map g (take b xs))"
  have a: "filter ?P (take b xs) = []"
    by (auto simp: filter_empty_conv)
  have b: "filter ?P (drop b xs) = drop b xs"
    using d by (auto simp: filter_id_conv)
  have "filter ?P xs = filter ?P (take b xs @ drop b xs)" by simp
  also have "\<dots> = filter ?P (take b xs) @ filter ?P (drop b xs)" by (rule filter_append)
  also have "\<dots> = drop b xs" by (simp only: a b append_Nil)
  finally show ?thesis .
qed

lemma distinct_map_sort_key:
  "distinct (map g (sort_key f xs)) \<longleftrightarrow> distinct (map g xs)"
  by (simp add: distinct_map)

lemma length_filter_batch:
  assumes "distinct (map g ds)"
  shows "length (filter (\<lambda>d. g d \<notin> set (map g (take b (sort_key f ds)))) ds)
           = length ds - min b (length ds)"
proof -
  let ?P = "\<lambda>d. g d \<notin> set (map g (take b (sort_key f ds)))"
  have "length (filter ?P ds) = length (sort_key f (filter ?P ds))" by simp
  also have "\<dots> = length (filter ?P (sort_key f ds))" by (simp only: filter_sort)
  also have "filter ?P (sort_key f ds) = drop b (sort_key f ds)"
    using assms by (intro filter_taken_refs) (simp add: distinct_map_sort_key)
  finally show ?thesis by simp
qed

lemma batch_sizes_step:
  assumes "0 < b" "0 < n"
  shows "min b n # batch_sizes b (n - min b n) = batch_sizes b n"
proof (cases "b \<le> n")
  case True
  then have d: "n div b = Suc ((n - b) div b)" and m: "(n - b) mod b = n mod b"
    using assms by (simp_all add: le_div_geq le_mod_geq)
  show ?thesis using True by (simp add: batch_sizes_def d m)
next
  case False
  then show ?thesis using assms by (simp add: batch_sizes_def)
qed

lemma collection_refs:
  "distinct (map doc_ref (collection c w)) \<longleftrightarrow> distinct (map doc_id (collection c w))"
proof -
  have "inj_on doc_ref (set (collection c w)) \<longleftrightarrow> inj_on doc_id (set (collection c w))"
    by (auto simp: inj_on_def collection_def doc_ref_def)
  then show ?thesis by (simp add: distinct_map)
qed

text \<open>
  \<open>deleteBatch\<close> on a collection whose documents have distinct names, when Firestore
  rejects no call: it resolves, the collection is empty, the batches that it committed are
  full ones and then the rest, and nothing else of the world has changed.
\<close>

lemma deleteBatch_all:
  assumes "\<not> outage w FirestoreRead" "\<not> outage w FirestoreWrite" "0 < b"
    and "distinct (map doc_ref (collection c w))"
  shows "fst (deleteBatch c b w) = Inr ()
       \<and> collection c (snd (deleteBatch c b w)) = []
       \<and> commit_log (snd (deleteBatch c b w))
           = commit_log w @ batch_sizes b (length (collection c w))
       \<and> filter (\<lambda>d. doc_coll d \<noteq> c) (docs (snd (deleteBatch c b w)))
           = filter (\<lambda>d. doc_coll d \<noteq> c) (docs w)
       \<and> meta (snd (deleteBatch c b w)) = meta w
       \<and> bucket (snd (deleteBatch c b w)) = bucket w
       \<and> memcache (snd (deleteBatch c b w)) = memcache w"
  using assms
proof (induction c b w rule: deleteBatch.induct)
  case (1 c b w)
  define ds where "ds = collection c w"
  define snapshot where "snapshot = take b (orderBy_name ds)"
  define P where "P = (\<lambda>d. doc_ref d \<notin> set (map doc_ref snapshot))"
  define w1 where "w1 = w\<lparr>docs := filter P (docs w),
                           commit_log := commit_log w @ [length (map doc_ref snapshot)]\<rparr>"
  have q: "query_get w xs = Inr xs" for xs
    using "1.prems" by (simp add: query_get_def)
  have unfold: "deleteBatch c b w =
      (if length snapshot = 0 then (Inr (), w)
       else case batch_commit (map doc_ref snapshot) w of
              (Inl e, w') \<Rightarrow> (Inl e, w') | (Inr _, w') \<Rightarrow> deleteBatch c b w')"
    by (simp only: deleteBatch.simps [of c b w] q sum.case snapshot_def ds_def)
  show ?case
  proof (cases "ds = []")
    case True
    then have "snapshot = []" by (simp add: snapshot_def orderBy_name_def)
    then have "deleteBatch c b w = (Inr (), w)" by (simp add: unfold)
    then show ?thesis using True by (simp add: batch_sizes_def ds_def)
  next
    case False
    have len: "length snapshot = min b (length ds)"
      by (simp add: snapshot_def orderBy_name_def min.commute)
    then have ne: "length snapshot \<noteq> 0"
      using "1.prems" False by simp
    have bc: "batch_commit (map doc_ref snapshot) w = (Inr (), w1)"
      using "1.prems" by (simp add: batch_commit_def w1_def P_def)
    have step: "deleteBatch c b w = deleteBatch c b w1"
      by (simp only: unfold ne if_False bc prod.case sum.case)
    have coll1: "collection c w1 = filter P ds"
      by (simp add: collection_def conj_commute w1_def ds_def)
    have "length (filter P ds) = length ds - min b (length ds)"
      unfolding P_def snapshot_def orderBy_name_def
      using "1.prems" by (intro length_filter_batch) (simp add: ds_def)
    then have len1: "length (collection c w1) = length ds - min b (length ds)"
      by (simp only: coll1)
    have dist1: "distinct (map doc_ref (collection c w1))"
      unfolding coll1 using "1.prems" by (simp add: distinct_map_filter ds_def)
    have others: "filter (\<lambda>d. doc_coll d \<noteq> c) (docs w1) = filter (\<lambda>d. doc_coll d \<noteq> c) (docs w)"
    proof -
      have "set snapshot \<subseteq> set ds"
        by (auto simp: snapshot_def orderBy_name_def dest: in_set_takeD)
      then have "\<And>d. doc_coll d \<noteq> c \<Longrightarrow> P d"
        by (auto simp: collection_def doc_ref_def P_def ds_def)
      then have "filter (\<lambda>d. doc_coll d \<noteq> c) (filter P (docs w))
          = filter (\<lambda>d. doc_coll d \<noteq> c) (docs w)"
        by (auto intro: filter_cong)
      then show ?thesis by (simp add: w1_def)
    qed
    have frame: "commit_log w1 = commit_log w @ [min b (length ds)]" "meta w1 = meta w"
      "bucket w1 = bucket w" "memcache w1 = memcache w" "outage w1 = outage w"
      by (simp_all add: w1_def len)
    have q': "query_get w (take b (orderBy_name (collection c w))) = Inr snapshot"
      by (simp only: q snapshot_def ds_def)
    have ih: "fst (deleteBatch c b w1) = Inr ()
       \<and> collection c (snd (deleteBatch c b w1)) = []
       \<and> commit_log (snd (deleteBatch c b w1))
           = commit_log w1 @ batch_sizes b (length (collection c w1))
       \<and> filter (\<lambda>d. doc_coll d \<noteq> c) (docs (snd (deleteBatch c b w1)))
           = filter (\<lambda>d. doc_coll d \<noteq> c) (docs w1)
       \<and> meta (snd (deleteBatch c b w1)) = meta w1
       \<and> bucket (snd (deleteBatch c b w1)) = bucket w1
       \<and> memcache (snd (deleteBatch c b w1)) = memcache w1"
      using "1.prems" dist1 by (intro "1.IH" [OF q' ne bc [symmetric] refl]) (simp_all add: frame)
    have "0 < b" and "0 < length ds" using False "1.prems" by simp_all
    from batch_sizes_step [OF this]
    have log: "[min b (length ds)] @ batch_sizes b (length (collection c w1))
        = batch_sizes b (length ds)"
      by (simp only: len1 append_Cons append_Nil)
    have "commit_log (snd (deleteBatch c b w1)) = commit_log w @ batch_sizes b (length ds)"
      using ih by (simp only: frame append_assoc log)
    then show ?thesis
      unfolding step using ih others by (simp add: frame ds_def)
  qed
qed

lemma many_docs_collection: "filter (\<lambda>d. doc_coll d = c) (many_docs c n) = many_docs c n"
  by (simp add: many_docs_def filter_map comp_def)

lemma many_docs_distinct: "distinct (map doc_id (many_docs c n))"
proof -
  have "inj_on (\<lambda>i. replicate (Suc i) CHR ''r'') {0..<n}"
    by (rule inj_onI) (metis length_replicate nat.inject)
  then show ?thesis by (simp add: many_docs_def comp_def distinct_map)
qed

text \<open>
  C9: \<open>deleteReports\<close> deletes the run records of a URL in batches of 20 and ends: with
  45 records it commits three batches, of 20, 20 and 5 records, and leaves none; with no
  record it resolves at once and deletes nothing. (When Firestore rejects no call; the
  names of the documents of a collection are distinct.)
\<close>

theorem deleteReports_in_batches:
  assumes "\<not> outage w FirestoreRead" "\<not> outage w FirestoreWrite"
    and "distinct (map doc_id (collection (slugify url) w))"
  shows "fst (deleteReports url w) = Inr ()
       \<and> collection (slugify url) (snd (deleteReports url w)) = []
       \<and> commit_log (snd (deleteReports url w))
           = commit_log w @ batch_sizes 20 (length (collection (slugify url) w))
       \<and> (length (collection (slugify url) w) = 45
            \<longrightarrow> commit_log (snd (deleteReports url w)) = commit_log w @ [20, 20, 5])
       \<and> (collection (slugify url) w = [] \<longrightarrow> deleteReports url w = (Inr (), w))"
proof -
  have d: "distinct (map doc_ref (collection (slugify url) w))"
    using assms(3) by (simp only: collection_refs)
  have b: "(0::nat) < 20" by simp
  note all = deleteBatch_all [OF assms(1,2) b d]
  have s: "batch_sizes 20 45 = [20, 20, 5]"
    by (simp add: batch_sizes_def numeral_2_eq_2)
  have e: "deleteBatch (slugify url) 20 w = (Inr (), w)" if "collection (slugify url) w = []"
    using that assms(1)
    by (simp add: deleteBatch.simps [of "slugify url" 20 w] query_get_def orderBy_name_def)
  show ?thesis
    unfolding deleteReports_def using all s e by auto
qed

theorem deleteReports_in_batches_witness:
  "length (collection ''https:____a.example'' big_world) = 45
   \<and> fst (deleteReports ''https://a.example'' big_world) = Inr ()
   \<and> collection ''https:____a.example'' (snd (deleteReports ''https://a.example'' big_world)) = []
   \<and> commit_log (snd (deleteReports ''https://a.example'' big_world)) = [20, 20, 5]
   \<and> deleteReports ''https://a.example'' empty_world = (Inr (), empty_world)"
proof -
  have u: "slugify ''https://a.example'' = ''https:____a.example''" by simp
  have c: "collection ''https:____a.example'' big_world = many_docs ''https:____a.example'' 45"
    by (simp add: collection_def big_world_def many_docs_collection)
  have n: "length (collection ''https:____a.example'' big_world) = 45"
    by (simp add: c many_docs_def)
  have o: "\<not> outage big_world FirestoreRead" "\<not> outage big_world FirestoreWrite"
    "commit_log big_world = []"
    by (simp_all add: big_world_def empty_world_def)
  have d: "distinct (map doc_id (collection (slugify ''https://a.example'') big_world))"
    by (simp only: u c many_docs_distinct)
  have o': "\<not> outage empty_world FirestoreRead" "\<not> outage empty_world FirestoreWrite"
    and c': "collection ''https:____a.example'' empty_world = []"
    by (simp_all add: empty_world_def collection_def)
  have d': "distinct (map doc_id (collection (slugify ''https://a.example'') empty_world))"
    by (simp only: u c') simp
  show ?thesis
    using deleteReports_in_batches [OF o(1,2) d] deleteReports_in_batches [OF o' d'] n o(3) c'
    by (auto simp: u)
qed

section \<open>Reading the reports of a URL\<close>

lemma getReports_miss:
  assumes "memcache w (''getReports_'' @ slugify url) = None \<or> \<not> truthy (snd (destructure arg))"
  shows "getReports url arg viewed w =
     (case fst (destructure arg) of
        None \<Rightarrow> (Inl (InvalidArgument ''limit''), w)
      | Some n \<Rightarrow>
          (case query_get w (take n (orderBy_auditedOn_desc (collection (slugify url) w))) of
             Inl e \<Rightarrow> (Inl e, w)
           | Inr snapshot \<Rightarrow>
               if snapshot = [] then (Inr (Runs []), w)
               else
                 (case updateLastViewed url viewed w of
                    (Inl e, w1) \<Rightarrow> (Inl e, w1)
                  | (Inr _, w1) \<Rightarrow>
                      (case getFullReport url w1 of
                         Inl e \<Rightarrow> (Inl e, w1)
                       | Inr full \<Rightarrow>
                           (Inr (Runs (map (attach full) (rev snapshot))),
                            if truthy (snd (destructure arg))
                            then memcache_set (''getReports_'' @ slugify url)
                                   (Runs (map (attach full) (rev snapshot))) w1
                            else w1)))))"
  using assms
  by (cases "destructure arg")
    (auto simp: getReports_def memcache_get_def Let_def
      split: option.splits sum.splits prod.splits)

lemma getFullReport_updateLastViewed:
  "updateLastViewed url viewed w = (res, w1) \<Longrightarrow> getFullReport u w1 = getFullReport u w"
  by (auto simp: updateLastViewed_def getFullReport_def split: if_splits)

lemma filter_key_once:
  "distinct (map k xs) \<Longrightarrow> a \<in> k ` set xs \<Longrightarrow> length (filter (\<lambda>x. k x = a) xs) = 1"
proof (induction xs)
  case Nil
  then show ?case by simp
next
  case (Cons x xs)
  show ?case
  proof (cases "k x = a")
    case True
    then have "a \<notin> k ` set xs" using Cons.prems by auto
    then have "filter (\<lambda>x. k x = a) xs = []" by (auto simp: filter_empty_conv)
    then show ?thesis using True by simp
  next
    case False
    then show ?thesis using Cons by auto
  qed
qed

lemma iso_example: "toISOString 1541116800000 = ''2018-11-02T00:00:00.000Z''"
  by (simp add: date_defs)

lemma slug_a: "slugify ''https://a.example'' = ''https:____a.example''"
  by simp

text \<open>The world after the first and after the second of the two calls.\<close>

lemma saved_once_fields:
  "docs saved_once =
     [\<lparr>doc_coll = ''https:____a.example'', doc_id = ''n1'', doc_lhrSlim = [perf (8/10)],
       doc_auditedOn = \<lparr>seconds = 1541116800, nanoseconds = 0\<rparr>, doc_crux = None\<rparr>]"
  "outage saved_once = (\<lambda>_. False)"
  "memcache saved_once = Map.empty"
  unfolding saved_once_def saveReport_ok(3,4,8) [OF empty_world_no_outage]
  by (simp_all add: lastDoc_of_def collection_def orderBy_auditedOn_desc_def empty_world_def
      added_doc_def slim_def audit_example_def perf_def Timestamp_fromDate_def fun_eq_iff)

lemma saved_once_no_outage:
  "\<not> outage saved_once FirestoreRead" "\<not> outage saved_once StorageSave"
  "\<not> outage saved_once FirestoreWrite"
  by (simp_all add: saved_once_fields)

lemma saved_twice_fields:
  "docs saved_twice =
     [\<lparr>doc_coll = ''https:____a.example'', doc_id = ''n1'', doc_lhrSlim = [perf (8/10)],
       doc_auditedOn = \<lparr>seconds = 1541116800, nanoseconds = 0\<rparr>, doc_crux = None\<rparr>,
      \<lparr>doc_coll = ''https:____a.example'', doc_id = ''n2'', doc_lhrSlim = [perf (8/10)],
       doc_auditedOn = \<lparr>seconds = 1541116800, nanoseconds = 0\<rparr>, doc_crux = None\<rparr>]"
  "outage saved_twice = (\<lambda>_. False)"
  "memcache saved_twice = Map.empty"
  "bucket saved_twice ''lhrs/https:____a.example.json''
     = Some ((aj_lhr audit_example)\<lparr>lhr_i18n := None,
               lhr_auditedOn := DateStr ''2018-11-02T00:00:00.000Z''\<rparr>)"
  unfolding saved_twice_def saveReport_ok(3,4,5,8) [OF saved_once_no_outage]
  by (simp_all add: saved_once_fields lastDoc_of_def collection_def orderBy_auditedOn_desc_def
      added_doc_def slim_def audit_example_def perf_def Timestamp_fromDate_def fun_eq_iff
      ts_key_def report_file_def JSON_roundtrip_def iso_example)

text \<open>
  C7, as stated: in every result of \<open>getReports\<close> that does not come from the cache and
  has a run, exactly one run carries the full report. After two saves of one URL in the
  same millisecond with \<open>replace = false\<close>, the result has two runs, and both carry it.
\<close>

theorem getReports_two_runs_carry_report:
  "memcache saved_twice ''getReports_https:____a.example'' = None
   \<and> carries_report (fst (getReports ''https://a.example'' None 1541116800005 saved_twice))
       = [True, True]"
proof -
  have m: "memcache saved_twice (''getReports_'' @ slugify ''https://a.example'') = None
      \<or> \<not> truthy (snd (destructure None))"
    by (simp add: saved_twice_fields)
  have t: "Timestamp_toDate \<lparr>seconds = 1541116800, nanoseconds = 0\<rparr> = 1541116800000"
    by (simp add: Timestamp_toDate_def)
  show ?thesis
    unfolding getReports_miss [OF m]
    by (simp add: saved_twice_fields destructure_def MAX_REPORTS_def query_get_def
        collection_def orderBy_auditedOn_desc_def ts_key_def updateLastViewed_def
        getFullReport_def report_file_def attach_def t iso_example carries_report_def)
qed

text \<open>
  C7, amended: in every result of \<open>getReports\<close> that does not come from the cache and
  has a run, the runs are the stored run documents, oldest first, and the runs that carry
  the full report are those whose \<^verbatim>\<open>auditedOn\<close>, as an ISO string, equals the
  \<^verbatim>\<open>auditedOn\<close> of the stored full report; the other runs carry none. When the ISO
  strings of the runs of the result are distinct and one of them equals that of the full
  report, exactly one run carries the full report.
\<close>

theorem getReports_attaches_to_matching_runs:
  assumes "getReports url arg viewed w = (Inr (Runs rs), w')"
    and "memcache w (''getReports_'' @ slugify url) = None \<or> \<not> truthy (snd (destructure arg))"
    and "rs \<noteq> []"
  shows "\<exists>full n. getFullReport url w = Inr full \<and> fst (destructure arg) = Some n
       \<and> rs = map (attach full)
                (rev (take n (orderBy_auditedOn_desc (collection (slugify url) w))))
       \<and> (\<forall>r \<in> set rs. run_lhr r =
              (if DateStr (toISOString (run_auditedOn r)) = lhr_auditedOn full
               then Some full else None))
       \<and> (distinct (map (\<lambda>r. toISOString (run_auditedOn r)) rs)
            \<and> (\<exists>r \<in> set rs. DateStr (toISOString (run_auditedOn r)) = lhr_auditedOn full)
          \<longrightarrow> length (filter (\<lambda>r. run_lhr r \<noteq> None) rs) = 1)"
proof -
  from assms(1,3) obtain n snapshot w1 full x where
    n: "fst (destructure arg) = Some n"
    and q: "query_get w (take n (orderBy_auditedOn_desc (collection (slugify url) w)))
              = Inr snapshot"
    and u: "updateLastViewed url viewed w = (Inr x, w1)"
    and f: "getFullReport url w1 = Inr full"
    and rs: "rs = map (attach full) (rev snapshot)"
    unfolding getReports_miss [OF assms(2)]
    by (auto split: option.splits sum.splits if_splits prod.splits)
  have snap: "snapshot = take n (orderBy_auditedOn_desc (collection (slugify url) w))"
    using q by (simp add: query_get_def split: if_splits)
  have full: "getFullReport url w = Inr full"
    using getFullReport_updateLastViewed [OF u] f by simp
  have each: "run_lhr r = (if DateStr (toISOString (run_auditedOn r)) = lhr_auditedOn full
                           then Some full else None)" if "r \<in> set rs" for r
    using that by (auto simp: rs attach_def)
  have one: "length (filter (\<lambda>r. run_lhr r \<noteq> None) rs) = 1"
    if d: "distinct (map (\<lambda>r. toISOString (run_auditedOn r)) rs)"
      and m: "\<exists>r \<in> set rs. DateStr (toISOString (run_auditedOn r)) = lhr_auditedOn full"
  proof -
    let ?k = "\<lambda>r. DateStr (toISOString (run_auditedOn r))"
    have "map ?k rs = map DateStr (map (\<lambda>r. toISOString (run_auditedOn r)) rs)"
      by simp
    then have dk: "distinct (map ?k rs)"
      using d by (simp only: distinct_map) (simp add: inj_on_def)
    have mem: "lhr_auditedOn full \<in> ?k ` set rs" using m by force
    have "filter (\<lambda>r. run_lhr r \<noteq> None) rs = filter (\<lambda>r. ?k r = lhr_auditedOn full) rs"
      by (rule filter_cong) (simp_all add: each)
    then show ?thesis using filter_key_once [OF dk mem] by simp
  qed
  show ?thesis using full n rs snap each one by blast
qed

theorem getReports_attaches_to_matching_runs_witness:
  "fst (getReports ''https://a.example'' (Some \<lparr>cfg_maxResults = Some 5, cfg_useCache = None\<rparr>)
          5000 cached_world)
     = Inr (Runs [\<lparr>run_lhrSlim = [perf (8/10)], run_auditedOn = 1000, run_crux = None,
                   run_lhr = Some stored_report\<rparr>])
   \<and> toISOString 1000 = ''1970-01-01T00:00:01.000Z''
   \<and> lhr_auditedOn stored_report = DateStr ''1970-01-01T00:00:01.000Z''
   \<and> getFullReport ''https://a.example'' cached_world = Inr stored_report
   \<and> length (filter (\<lambda>r. run_lhr r \<noteq> None)
        [\<lparr>run_lhrSlim = [perf (8/10)], run_auditedOn = 1000, run_crux = None,
          run_lhr = Some stored_report\<rparr>]) = 1"
proof -
  let ?arg = "Some \<lparr>cfg_maxResults = Some 5, cfg_useCache = None\<rparr>"
  let ?rs = "[\<lparr>run_lhrSlim = [perf (8/10)], run_auditedOn = 1000, run_crux = None,
               run_lhr = Some stored_report\<rparr>]"
  have m: "memcache cached_world (''getReports_'' @ slugify ''https://a.example'') = None
      \<or> \<not> truthy (snd (destructure ?arg))"
    by (simp add: destructure_def truthy_def)
  have r: "fst (getReports ''https://a.example'' ?arg 5000 cached_world) = Inr (Runs ?rs)"
    by (simp add: getReports_def destructure_def attach_def iso_1000 example_defs store_defs)
  then have h: "getReports ''https://a.example'' ?arg 5000 cached_world
      = (Inr (Runs ?rs), snd (getReports ''https://a.example'' ?arg 5000 cached_world))"
    by (metis prod.collapse)
  have ne: "?rs \<noteq> []" by simp
  have s: "lhr_auditedOn stored_report = DateStr ''1970-01-01T00:00:01.000Z''"
    by (simp add: stored_report_def)
  show ?thesis
    using getReports_attaches_to_matching_runs [OF h m ne] r s
    by (auto simp: iso_1000 split: if_splits)
qed

end
